theory Spec2Isabelle
  imports Main "HOL-Library.AList"
begin

section \<open>Data model\<close>

text \<open>
  Identifiers of the document store (MongoDB ObjectIds) are opaque values that the code
  only compares for equality; they are modelled as natural numbers. Socket identifiers
  are strings. Timestamps are milliseconds since the epoch.

  A JavaScript string is a sequence of UTF-16 code units; \<open>length\<close>, \<open>trim\<close> and the
  regular expressions of the code work on code units, so message texts and user names are
  lists of code units. \<open>js\<close> turns an ASCII literal into such a string.
\<close>

type_synonym object_id = nat
type_synonym socket_id = string
type_synonym time = int
type_synonym js_string = "nat list"

definition js :: "string \<Rightarrow> js_string" where
  "js s = map of_char s"

datatype error =
    SaveError
  | ValidationError
  | LoadTimeout
  | StoreError
  | MaxRetriesExceeded
  | Unauthorized
  | NoMessageData
  | NoRoomInfo
  | NoRoomAccess
  | SessionExpired
  | BadFileData
  | FileNotFound
  | UnsupportedType
  | RoomNotFound
  | ReferenceError string

subsection \<open>models/Message.js: the reaction map of a message\<close>

text \<open>
  \<open>reactions\<close> is a JavaScript \<open>Map\<close> from a reaction label to an array of user ids.
  A \<open>Map\<close> keeps its keys in insertion order, \<open>set\<close> on an existing key keeps its
  position and \<open>set\<close> on a new key appends it: this is an association list with
  \<open>AList.update\<close>, \<open>AList.delete\<close> and \<open>map_of\<close>. The field itself may be absent
  (\<open>!this.reactions\<close>), hence the option.
\<close>

type_synonym reaction_map = "(string \<times> object_id list) list"

text \<open>
  \<open>addReaction(emoji, userId)\<close>. The flag \<open>save_ok\<close> is the outcome of \<open>this.save()\<close>;
  when it rejects, the method rethrows after the in-memory document was already changed.
  The result is the in-memory reaction map after the call, and either the error or the
  returned value \<open>this.reactions.get(emoji)\<close> (\<open>None\<close> is \<open>undefined\<close>). User ids are
  compared by value, as the arrays of the document do and as \<open>removeReaction\<close> does
  through \<open>toString\<close>.
\<close>

definition addReaction ::
  "bool \<Rightarrow> string \<Rightarrow> object_id \<Rightarrow> reaction_map option
     \<Rightarrow> reaction_map option \<times> (error + object_id list option)" where
  "addReaction save_ok emoji userId reactions =
     (let rs = (case reactions of None \<Rightarrow> [] | Some m \<Rightarrow> m);
          userReactions = (case map_of rs emoji of None \<Rightarrow> [] | Some us \<Rightarrow> us)
      in if userId \<notin> set userReactions
         then (let rs' = AList.update emoji (userReactions @ [userId]) rs
               in if save_ok then (Some rs', Inr (map_of rs' emoji))
                  else (Some rs', Inl SaveError))
         else (Some rs, Inr (map_of rs emoji)))"

text \<open>
  \<open>removeReaction(emoji, userId)\<close>: returns \<open>undefined\<close> at once when the map or the label
  is absent; otherwise filters the user out, deletes the label when nobody is left, saves,
  and returns \<open>this.reactions.get(emoji)\<close>.
\<close>

definition removeReaction ::
  "bool \<Rightarrow> string \<Rightarrow> object_id \<Rightarrow> reaction_map option
     \<Rightarrow> reaction_map option \<times> (error + object_id list option)" where
  "removeReaction save_ok emoji userId reactions =
     (case reactions of
        None \<Rightarrow> (None, Inr None)
      | Some rs \<Rightarrow>
          (case map_of rs emoji of
             None \<Rightarrow> (Some rs, Inr None)
           | Some userReactions \<Rightarrow>
               (let updatedReactions = filter (\<lambda>i. i \<noteq> userId) userReactions;
                    rs' = (if updatedReactions = [] then AList.delete emoji rs
                           else AList.update emoji updatedReactions rs)
                in if save_ok then (Some rs', Inr (map_of rs' emoji))
                   else (Some rs', Inl SaveError))))"

datatype reaction_op = Add string object_id | Remove string object_id

text \<open>A sequence of reaction calls on one document, each with the outcome of its save.\<close>

fun apply_reaction :: "reaction_op \<times> bool \<Rightarrow> reaction_map option \<Rightarrow> reaction_map option" where
  "apply_reaction (Add emoji userId, save_ok) d = fst (addReaction save_ok emoji userId d)"
| "apply_reaction (Remove emoji userId, save_ok) d = fst (removeReaction save_ok emoji userId d)"

fun apply_reactions :: "(reaction_op \<times> bool) list \<Rightarrow> reaction_map option \<Rightarrow> reaction_map option" where
  "apply_reactions [] d = d"
| "apply_reactions (x # xs) d = apply_reactions xs (apply_reaction x d)"

text \<open>
  The invariant of the reaction map: it is a map (no label twice), no label has an empty
  reactor list, and no reactor is listed twice under a label.
\<close>

definition reactions_ok :: "reaction_map option \<Rightarrow> bool" where
  "reactions_ok d =
     (case d of
        None \<Rightarrow> True
      | Some rs \<Rightarrow> distinct (map fst rs) \<and> list_all (\<lambda>(l, us). us \<noteq> [] \<and> distinct us) rs)"

definition reactors :: "reaction_map option \<Rightarrow> string \<Rightarrow> object_id list option" where
  "reactors d emoji = (case d of None \<Rightarrow> None | Some rs \<Rightarrow> map_of rs emoji)"

subsection \<open>Messages, rooms and the shared state\<close>

text \<open>
  A message document of models/Message.js with the fields the handlers read or write.
  The aggregation pipelines replace the sender and file ids by the joined documents and
  add reader summaries; this enrichment does not influence which messages are returned
  or in which order, and the model keeps the ids in their place.
\<close>

datatype msg_type = TText | TSystem | TAi | TFile

record message =
  msg_id :: object_id
  msg_room :: object_id
  msg_content :: js_string
  msg_sender :: "object_id option"
  msg_type :: msg_type
  msg_file :: "object_id option"
  msg_timestamp :: time
  msg_readers :: "(object_id \<times> time) list"
  msg_reactions :: reaction_map
  msg_isDeleted :: bool

text \<open>
  A room document (models/Room.js), a file document as far as \<open>File.findOne\<close> looks at it,
  and \<open>socket.user\<close> as the authentication middleware sets it before any handler runs.
\<close>

record room =
  participants :: "object_id list"
  hasPassword :: bool

record file_doc =
  file_user :: object_id
  file_mimetype :: string
  file_size :: nat
  file_originalname :: js_string

record user =
  user_id :: object_id
  user_name :: js_string
  user_sessionId :: string

text \<open>
  The state shared by all connections. The collections \<open>roomColl\<close>, \<open>messageColl\<close> and
  \<open>fileColl\<close> are the document store.

  Modelled from the spec: utils/redisClient, the coordination store, whose source is not
  part of the code under study. It offers \<open>get(key)\<close>, \<open>set(key, value, ttl?)\<close>,
  \<open>setEx\<close>, \<open>del(key)\<close> and \<open>keys(pattern)\<close>; \<open>get\<close> returns the value that was stored (the
  handlers take its length, index it and push onto it) and nothing for an absent key.
  Each family of keys is one field, indexed by the ids that the key is built from:
  \<open>connectedUser\<close> is the presence record, \<open>userRoom\<close> the occupancy record,
  \<open>messageQueue\<close> the load-in-flight guard of a room and a user (only the value \<open>true\<close>
  is ever stored, so the field is the set of present keys), \<open>messageLoadRetry\<close> the retry
  counter of a room and a user, and \<open>roomMessages\<close> the recent-message cache of a room. Expiry of a key is not modelled: within one handler call a key
  stays until the code deletes it.
\<close>

record state =
  connectedUser :: "object_id \<rightharpoonup> socket_id"
  userRoom :: "object_id \<rightharpoonup> object_id"
  messageQueue :: "(object_id \<times> object_id) set"
  messageLoadRetry :: "object_id \<times> object_id \<rightharpoonup> nat"
  roomMessages :: "object_id \<rightharpoonup> message list"
  roomColl :: "object_id \<rightharpoonup> room"
  messageColl :: "message list"
  fileColl :: "object_id \<rightharpoonup> file_doc"

text \<open>The object returned by \<open>loadMessages\<close>; \<open>oldestTimestamp\<close> is \<open>null\<close> for \<open>None\<close>.\<close>

record page =
  messages :: "message list"
  hasMore :: bool
  oldestTimestamp :: "time option"

text \<open>
  The events of the socket protocol with the payload the claims speak about. Error events
  carry the error in place of its message text. \<open>JoinRoomSuccess r None\<close> is the short
  answer \<open>{roomId}\<close>, \<open>JoinRoomSuccess r (Some (participants, page))\<close> the full one.

  A handler returns the new state and the list of its effects in the order it performs
  them: \<open>Emit\<close> is \<open>socket.emit\<close>, \<open>ToOthers\<close> is \<open>socket.to(room).emit\<close>, \<open>ToRoom\<close> is
  \<open>io.to(room).emit\<close>, \<open>ToSocket\<close> an emit on another socket, \<open>After d e\<close> an effect
  scheduled with \<open>setTimeout\<close>, \<open>Sleep d\<close> an awaited delay. The writes to the stores are
  listed as well (and performed on the state), so that their order relative to the emits
  can be stated. \<open>CallLoadMessages\<close> marks a call of \<open>loadMessages\<close>, \<open>Aggregate\<close> the query
  sent to the document store.
\<close>

datatype event =
    JoinRoomSuccess object_id "(object_id list \<times> page) option"
  | JoinRoomError error
  | UserLeft object_id js_string
  | MessageEvent message
  | ParticipantsUpdate "object_id list"
  | MessageLoadStart
  | PreviousMessagesLoaded page
  | LoadError error
  | MessageError error
  | MarkReadError
  | MessagesRead object_id "object_id list"
  | DuplicateLogin
  | SessionEnded

datatype effect =
    Emit event
  | ToOthers object_id event
  | ToRoom object_id event
  | ToSocket socket_id event
  | SocketJoin object_id
  | SocketLeave object_id
  | CallLoadMessages object_id "time option"
  | Aggregate object_id "time option" nat
  | BulkMarkRead "object_id list" object_id
  | CacheWrite object_id
  | Sleep nat
  | After nat effect
  | DelMessageQueue object_id object_id
  | ForceDisconnect socket_id
  | DelUserRoom object_id
  | SetUserRoom object_id object_id
  | AddToSetParticipants object_id object_id
  | PullParticipants object_id object_id
  | InsertMessage message
  | UpdateManyReaders "object_id list" object_id object_id
  | HandleAIResponse object_id js_string js_string
  | UpdateLastActivity object_id

text \<open>
  The outcome of \<open>Message.aggregate\<close> raced against the 10 second timer: an answer, the
  timeout, or a rejection by the store. The other store calls are taken to answer.
\<close>

datatype db_outcome = DbOk | DbTimeout | DbFails

text \<open>The constants of sockets/chat.js (delays in milliseconds).\<close>

definition RECENT_MESSAGE_CACHE :: nat where "RECENT_MESSAGE_CACHE = 50"
definition BATCH_SIZE :: nat where "BATCH_SIZE = 30"
definition LOAD_DELAY :: nat where "LOAD_DELAY = 300"
definition MAX_RETRIES :: nat where "MAX_RETRIES = 3"
definition RETRY_DELAY :: nat where "RETRY_DELAY = 2000"
definition DUPLICATE_LOGIN_TIMEOUT :: nat where "DUPLICATE_LOGIN_TIMEOUT = 10000"

text \<open>\<open>xs.slice(-n)\<close>: the last \<open>n\<close> elements; \<open>slice(-0)\<close> is \<open>slice(0)\<close>, the whole array.\<close>

definition slice_from_end :: "nat \<Rightarrow> 'a list \<Rightarrow> 'a list" where
  "slice_from_end n xs = (if n = 0 then xs else drop (length xs - n) xs)"

text \<open>
  The pipeline of \<open>loadMessages\<close>: \<open>$match\<close> on the room, \<open>isDeleted: false\<close> and, with
  \<open>before\<close>, \<open>timestamp < before\<close>; \<open>$sort\<close> by descending timestamp; \<open>$limit\<close> of
  \<open>limit + 1\<close>. The store does not say how it orders equal timestamps; the model sorts
  stably.
\<close>

definition matchStage :: "object_id \<Rightarrow> time option \<Rightarrow> message \<Rightarrow> bool" where
  "matchStage roomId before m =
     (msg_room m = roomId \<and> \<not> msg_isDeleted m \<and>
      (case before of None \<Rightarrow> True | Some b \<Rightarrow> msg_timestamp m < b))"

definition aggregate :: "message list \<Rightarrow> object_id \<Rightarrow> time option \<Rightarrow> nat \<Rightarrow> message list" where
  "aggregate coll roomId before limit =
     take (limit + 1) (sort_key (\<lambda>m. - msg_timestamp m) (filter (matchStage roomId before) coll))"

text \<open>
  The bulk write that marks the returned messages as read: for each id, push
  \<open>{userId, readAt}\<close> unless the reader list already names the user. The code starts it
  without awaiting it and swallows its failure; the model applies it at once.
\<close>

definition has_read :: "object_id \<Rightarrow> message \<Rightarrow> bool" where
  "has_read uid m = (uid \<in> fst ` set (msg_readers m))"

definition push_reader :: "object_id \<Rightarrow> time \<Rightarrow> message \<Rightarrow> message" where
  "push_reader uid now m = m\<lparr>msg_readers := msg_readers m @ [(uid, now)]\<rparr>"

definition bulkMarkRead :: "object_id list \<Rightarrow> object_id \<Rightarrow> time \<Rightarrow> message list \<Rightarrow> message list" where
  "bulkMarkRead ids uid now coll =
     map (\<lambda>m. if msg_id m \<in> set ids \<and> \<not> has_read uid m then push_reader uid now m else m) coll"

text \<open>
  \<open>sortedMessages[0]?.timestamp || null\<close>; a timestamp is a \<open>Date\<close> or, from the cache, its
  ISO string, both truthy.
\<close>

definition first_timestamp :: "message list \<Rightarrow> time option" where
  "first_timestamp ms = (case ms of [] \<Rightarrow> None | m # _ \<Rightarrow> Some (msg_timestamp m))"

text \<open>
  \<open>loadMessages(socket, roomId, before, limit)\<close>. Without \<open>before\<close> the cache is read first and
  a non-empty entry is answered from it: the last \<open>limit\<close> entries when there are more,
  otherwise all, in the order of the cache. Otherwise the store is queried; a timeout or
  failure is rethrown with the state untouched. From the rows, \<open>hasMore\<close> is
  \<open>messages.length > limit\<close>, the page is \<open>messages.slice(0, limit)\<close> sorted by ascending
  timestamp (\<open>Array.prototype.sort\<close> is stable), the page is marked as read, and without
  \<open>before\<close> the rows \<open>messages.slice(0, RECENT_MESSAGE_CACHE)\<close> are written to the cache:
  \<open>slice\<close> copied the page before it was sorted, so \<open>messages\<close> is still newest first.
\<close>

definition loadMessages ::
  "db_outcome \<Rightarrow> object_id \<Rightarrow> time \<Rightarrow> object_id \<Rightarrow> time option \<Rightarrow> nat \<Rightarrow> state
     \<Rightarrow> (error + page) \<times> state \<times> effect list" where
  "loadMessages db uid now roomId before limit s =
     (let cachedMessages =
            (if before = None
             then (case roomMessages s roomId of None \<Rightarrow> [] | Some ms \<Rightarrow> ms) else [])
      in if before = None \<and> cachedMessages \<noteq> []
         then (let sortedMessages =
                     (if length cachedMessages > limit
                      then slice_from_end limit cachedMessages else cachedMessages)
               in (Inr \<lparr>messages = sortedMessages,
                        hasMore = (length cachedMessages > limit),
                        oldestTimestamp = first_timestamp sortedMessages\<rparr>,
                   s, []))
         else (case db of
                 DbTimeout \<Rightarrow> (Inl LoadTimeout, s, [Aggregate roomId before limit])
               | DbFails \<Rightarrow> (Inl StoreError, s, [Aggregate roomId before limit])
               | DbOk \<Rightarrow>
                   (let msgs = aggregate (messageColl s) roomId before limit;
                        hasMore = (length msgs > limit);
                        resultMessages = take limit msgs;
                        sortedMessages = sort_key msg_timestamp resultMessages;
                        marked = (sortedMessages \<noteq> []);
                        s1 = (if marked
                              then s\<lparr>messageColl :=
                                       bulkMarkRead (map msg_id sortedMessages) uid now (messageColl s)\<rparr>
                              else s);
                        cached = (before = None \<and> msgs \<noteq> []);
                        s2 = (if cached
                              then s1\<lparr>roomMessages :=
                                        (roomMessages s1)(roomId \<mapsto> take RECENT_MESSAGE_CACHE msgs)\<rparr>
                              else s1)
                    in (Inr \<lparr>messages = sortedMessages,
                             hasMore = hasMore,
                             oldestTimestamp = first_timestamp sortedMessages\<rparr>,
                        s2,
                        [Aggregate roomId before limit] @
                        (if marked then [BulkMarkRead (map msg_id sortedMessages) uid] else []) @
                        (if cached then [CacheWrite roomId] else [])))))"

text \<open>
  \<open>Number(v)\<close> and \<open>Number(v) || 0\<close> on the counter, which is absent or a number written by
  this function.
\<close>

definition Number :: "nat option \<Rightarrow> nat" where
  "Number v = (case v of None \<Rightarrow> 0 | Some n \<Rightarrow> n)"

definition retry_delay :: "nat \<Rightarrow> nat" where
  "retry_delay currentRetries = min (RETRY_DELAY * 2 ^ currentRetries) 10000"

text \<open>
  The handlers run concurrently: whenever one of them awaits a store call or a timer, other
  handlers, of this or of another process, may run and change the shared state. Where a
  claim depends on what is read before and written after such a point, the model takes the
  interference explicitly: \<open>env\<close> is the list of state changes that other parties make
  at the successive interference points of a call (the empty list when nobody interferes,
  and nobody after the list is used up), and \<open>env_step\<close> applies the next one.
\<close>

definition env_step :: "(state \<Rightarrow> state) list \<Rightarrow> state \<Rightarrow> state" where
  "env_step env s = (case env of [] \<Rightarrow> s | e # _ \<Rightarrow> e s)"

text \<open>
  \<open>loadMessagesWithRetry(socket, roomId, before, retryCount)\<close>; the parameter \<open>retryCount\<close> is
  never read. \<open>db i\<close> is the outcome of the store query of the \<open>i\<close>-th load. The \<open>try\<close> block
  reads the counter and throws the max-retries error when it is at the ceiling, else
  loads, deletes the counter and returns. The \<open>catch\<close> block, entered by either throw,
  reads the counter again: below the ceiling it stores the counter plus one, waits
  \<open>min(RETRY_DELAY * 2 ^ currentRetries, 10000)\<close> and calls itself; otherwise it deletes the
  counter and rethrows. The counter is a key shared by all calls for the same room and
  user, so there are two interference points in each round: between the first read and
  what follows the load (the second read, or the deletion after a success), and during
  the wait, before the next call reads the counter.
\<close>

function loadMessagesWithRetry ::
  "(state \<Rightarrow> state) list \<Rightarrow> (nat \<Rightarrow> db_outcome) \<Rightarrow> nat \<Rightarrow> object_id \<Rightarrow> time \<Rightarrow> object_id \<Rightarrow>
     time option \<Rightarrow> state \<Rightarrow> (error + page) \<times> state \<times> effect list" where
  "loadMessagesWithRetry env db i uid now roomId before s =
     (let retryKey = (roomId, uid) in
      if Number (messageLoadRetry s retryKey) \<ge> MAX_RETRIES
      then (let s0 = env_step env s;
                currentRetries = Number (messageLoadRetry s0 retryKey) in
            if currentRetries < MAX_RETRIES
            then (let s1 = env_step (tl env)
                             (s0\<lparr>messageLoadRetry :=
                                   (messageLoadRetry s0)(retryKey \<mapsto> currentRetries + 1)\<rparr>);
                      (r, s2, t) = loadMessagesWithRetry (tl (tl env)) db i uid now roomId before s1
                  in (r, s2, Sleep (retry_delay currentRetries) # t))
            else (Inl MaxRetriesExceeded,
                  s0\<lparr>messageLoadRetry := (messageLoadRetry s0)(retryKey := None)\<rparr>, []))
      else (case loadMessages (db i) uid now roomId before BATCH_SIZE s of
              (Inr result, sl, t1) \<Rightarrow>
                (let s1 = env_step env sl in
                 (Inr result,
                  s1\<lparr>messageLoadRetry := (messageLoadRetry s1)(retryKey := None)\<rparr>,
                  CallLoadMessages roomId before # t1))
            | (Inl err, sl, t1) \<Rightarrow>
                (let s1 = env_step env sl;
                     currentRetries = Number (messageLoadRetry s1 retryKey) in
                 if currentRetries < MAX_RETRIES
                 then (let s2 = env_step (tl env)
                                  (s1\<lparr>messageLoadRetry :=
                                        (messageLoadRetry s1)(retryKey \<mapsto> currentRetries + 1)\<rparr>);
                           (r, s3, t3) =
                             loadMessagesWithRetry (tl (tl env)) db (i + 1) uid now roomId before s2
                       in (r, s3, CallLoadMessages roomId before # t1 @
                                  Sleep (retry_delay currentRetries) # t3))
                 else (Inl err,
                       s1\<lparr>messageLoadRetry := (messageLoadRetry s1)(retryKey := None)\<rparr>,
                       CallLoadMessages roomId before # t1))))"
  by pat_completeness auto

text \<open>
  The call always returns: a round either uses up interference, of which there is
  finitely much, or, undisturbed, raises the counter towards the ceiling.
\<close>

termination loadMessagesWithRetry
proof (relation "measures [\<lambda>(env, db, i, uid, now, roomId, before, s). length env,
                           \<lambda>(env, db, i, uid, now, roomId, before, s).
                              MAX_RETRIES - Number (messageLoadRetry s (roomId, uid))]", goal_cases)
  case 1
  show ?case by simp
next
  case (2 env db i uid now roomId before s retryKey s0 currentRetries s1)
  show ?case
  proof (cases env)
    case Nil
    with 2 show ?thesis by (simp add: env_step_def Number_def)
  next
    case (Cons e rest)
    then have "length (tl (tl env)) < length env" by simp
    then show ?thesis by simp
  qed
next
  case (3 env db i uid now roomId before s retryKey r1 rest err sl t1 s1 currentRetries s2)
  from 3(3,5) have "loadMessages (db i) uid now roomId before BATCH_SIZE s = (r1, sl, t1)"
    by simp
  then have "messageLoadRetry sl = messageLoadRetry s"
    by (auto simp: loadMessages_def Let_def split: if_splits db_outcome.splits)
  with 3 show ?case
  proof (cases env)
    case Nil
    with 3 \<open>messageLoadRetry sl = messageLoadRetry s\<close> show ?thesis
      by (simp add: env_step_def Number_def)
  next
    case (Cons e rest')
    then have "length (tl (tl env)) < length env" by simp
    then show ?thesis by simp
  qed
qed

declare loadMessagesWithRetry.simps [simp del]

text \<open>
  The number of \<open>loadMessages\<close> calls and the awaited delays in a list of effects;
  \<open>steps\<close> keeps both in their order. \<open>retry_counter\<close> is the counter as the code reads it,
  and \<open>keeps_counter\<close> says that the interference leaves the counter of a room and user
  alone.
\<close>

fun attempts :: "effect list \<Rightarrow> nat" where
  "attempts [] = 0"
| "attempts (CallLoadMessages r b # t) = Suc (attempts t)"
| "attempts (e # t) = attempts t"




definition retry_counter :: "state \<Rightarrow> object_id \<Rightarrow> object_id \<Rightarrow> nat" where
  "retry_counter s roomId uid = Number (messageLoadRetry s (roomId, uid))"


text \<open>
  The empty stores, and \<open>new Message({...})\<close> with the defaults of the schema (no readers, no
  reactions, not deleted).
\<close>

definition init_state :: state where
  "init_state = \<lparr>connectedUser = Map.empty, userRoom = Map.empty, messageQueue = {},
                 messageLoadRetry = Map.empty, roomMessages = Map.empty, roomColl = Map.empty,
                 messageColl = [], fileColl = Map.empty\<rparr>"

definition new_message ::
  "object_id \<Rightarrow> object_id \<Rightarrow> object_id option \<Rightarrow> msg_type \<Rightarrow> js_string \<Rightarrow> time \<Rightarrow> message" where
  "new_message i roomId sender ty content ts =
     \<lparr>msg_id = i, msg_room = roomId, msg_content = content, msg_sender = sender,
      msg_type = ty, msg_file = None, msg_timestamp = ts, msg_readers = [],
      msg_reactions = [], msg_isDeleted = False\<rparr>"

subsection \<open>JavaScript string helpers\<close>

text \<open>
  \<open>String.prototype.trim\<close> removes white space and line terminators at both ends.
\<close>

definition is_space :: "nat \<Rightarrow> bool" where
  "is_space c = (c \<in> {0x9, 0xA, 0xB, 0xC, 0xD, 0x20, 0xA0, 0x1680, 0x2028, 0x2029,
                       0x202F, 0x205F, 0x3000, 0xFEFF} \<or> (0x2000 \<le> c \<and> c \<le> 0x200A))"

definition trim :: "js_string \<Rightarrow> js_string" where
  "trim s = rev (dropWhile is_space (rev (dropWhile is_space s)))"

text \<open>
  The mention pattern is an at sign, one of the two assistant names, and a word boundary.
  After the last letter of the name the boundary holds at the end of the string or before
  a character that is not a letter, a digit or an underscore. \<open>extractAIMentions\<close> runs the
  global pattern over the content, resuming after each match, and returns the distinct
  names in the order of their first match. \<open>strip_mention\<close> is
  \<open>content.replace(pattern, '')\<close> for one name.
\<close>

definition is_word :: "nat \<Rightarrow> bool" where
  "is_word c = ((0x30 \<le> c \<and> c \<le> 0x39) \<or> (0x41 \<le> c \<and> c \<le> 0x5A) \<or> c = 0x5F \<or>
                (0x61 \<le> c \<and> c \<le> 0x7A))"

definition wayneAI :: js_string where "wayneAI = js ''wayneAI''"
definition consultingAI :: js_string where "consultingAI = js ''consultingAI''"

definition mention_at :: "js_string \<Rightarrow> js_string \<Rightarrow> bool" where
  "mention_at ai s =
     (take (Suc (length ai)) s = 0x40 # ai \<and>
      (case drop (Suc (length ai)) s of [] \<Rightarrow> True | c # _ \<Rightarrow> \<not> is_word c))"

fun scan_mentions :: "js_string \<Rightarrow> js_string list" where
  "scan_mentions [] = []"
| "scan_mentions (c # cs) =
     (if mention_at wayneAI (c # cs) then wayneAI # scan_mentions (drop (length wayneAI) cs)
      else if mention_at consultingAI (c # cs)
           then consultingAI # scan_mentions (drop (length consultingAI) cs)
      else scan_mentions cs)"

definition extractAIMentions :: "js_string option \<Rightarrow> js_string list" where
  "extractAIMentions content =
     (case content of None \<Rightarrow> [] | Some c \<Rightarrow> if c = [] then [] else rev (remdups (rev (scan_mentions c))))"

fun strip_mention :: "js_string \<Rightarrow> js_string \<Rightarrow> js_string" where
  "strip_mention ai [] = []"
| "strip_mention ai (c # cs) =
     (if mention_at ai (c # cs) then strip_mention ai (drop (length ai) cs)
      else c # strip_mention ai cs)"

subsection \<open>Saving a message document\<close>

text \<open>
  The fixed Korean texts that follow the user name in the system messages for joining and
  for a lost connection, as UTF-16 code units.
\<close>

definition joined_suffix :: js_string where
  "joined_suffix = [0xB2D8, 0xC774, 0x20, 0xC785, 0xC7A5, 0xD558, 0xC600, 0xC2B5, 0xB2C8, 0xB2E4, 0x2E]"

definition disconnected_suffix :: js_string where
  "disconnected_suffix = [0xB2D8, 0xC774, 0x20, 0xC5F0, 0xACB0, 0xC774, 0x20, 0xB04A, 0xC5B4,
                          0xC84C, 0xC2B5, 0xB2C8, 0xB2E4, 0x2E]"

text \<open>
  \<open>save\<close> and \<open>Message.create\<close>: the schema trims \<open>content\<close>, requires it unless the type is
  \<open>file\<close> (an empty string does not satisfy \<open>required\<close>), requires \<open>file\<close> for the type
  \<open>file\<close>, and limits \<open>content\<close> to 10000 code units. A document that fails validation is
  not stored and the call rejects.
\<close>

definition valid_message :: "message \<Rightarrow> bool" where
  "valid_message m =
     ((if msg_type m = TFile then msg_file m \<noteq> None else msg_content m \<noteq> []) \<and>
      length (msg_content m) \<le> 10000)"

definition save_message :: "message \<Rightarrow> state \<Rightarrow> error + message \<times> state" where
  "save_message m s =
     (let doc = m\<lparr>msg_content := trim (msg_content m)\<rparr>
      in if valid_message doc then Inr (doc, s\<lparr>messageColl := messageColl s @ [doc]\<rparr>)
         else Inl ValidationError)"

subsection \<open>The socket handlers\<close>

text \<open>
  Every handler takes \<open>socket.user\<close> as set by the authentication middleware, the current
  time \<open>now\<close> for \<open>new Date()\<close>, and the id \<open>new_id\<close> that the store gives to a document the
  handler creates.

  \<open>fetchPreviousMessages\<close>: the room must list the user as a participant; then the guard
  key is looked up and, when present, the handler returns; otherwise the key is set
  (with a time to live of \<open>Math.ceil(LOAD_DELAY / 1000)\<close>, one second),
  \<open>messageLoadStart\<close> is emitted and the page is loaded with retry. An error thrown in the
  \<open>try\<close> block is emitted as an error event. The \<open>finally\<close> block schedules the deletion
  of the guard key after \<open>LOAD_DELAY\<close> on every path. \<open>env\<close> is the interference during
  the load with retry.
\<close>

definition fetchPreviousMessages ::
  "(state \<Rightarrow> state) list \<Rightarrow> (nat \<Rightarrow> db_outcome) \<Rightarrow> user \<Rightarrow> time \<Rightarrow> object_id \<Rightarrow> time option \<Rightarrow> state
     \<Rightarrow> state \<times> effect list" where
  "fetchPreviousMessages env db u now roomId before s =
     (let uid = user_id u;
          release = After LOAD_DELAY (DelMessageQueue roomId uid);
          is_participant = (case roomColl s roomId of None \<Rightarrow> False
                            | Some room \<Rightarrow> uid \<in> set (participants room))
      in if \<not> is_participant then (s, [Emit (LoadError NoRoomAccess), release])
         else if (roomId, uid) \<in> messageQueue s then (s, [release])
         else (let s1 = s\<lparr>messageQueue := insert (roomId, uid) (messageQueue s)\<rparr>
               in case loadMessagesWithRetry env db 0 uid now roomId before s1 of
                    (Inr result, s2, t) \<Rightarrow>
                      (s2, Emit MessageLoadStart # t @ [Emit (PreviousMessagesLoaded result), release])
                  | (Inl err, s2, t) \<Rightarrow>
                      (s2, Emit MessageLoadStart # t @ [Emit (LoadError err), release])))"

text \<open>The update operators \<open>$addToSet\<close> and \<open>$pull\<close> on an array field.\<close>

definition addToSet :: "'a \<Rightarrow> 'a list \<Rightarrow> 'a list" where
  "addToSet x xs = (if x \<in> set xs then xs else xs @ [x])"

definition pull :: "'a \<Rightarrow> 'a list \<Rightarrow> 'a list" where
  "pull x xs = filter (\<lambda>y. y \<noteq> x) xs"

text \<open>
  \<open>joinRoom\<close>: when the occupancy record names the room, answer \<open>joinRoomSuccess\<close> and
  return. Otherwise leave a previous room (socket room, occupancy record, \<open>userLeft\<close> to
  the others there), add the user to the participants of the target room with
  \<open>findByIdAndUpdate\<close> (no document: the room does not exist), join the socket room, set the
  occupancy record, save the join message, load the initial page, answer with the
  participants and the page, and broadcast the join message and the participants to the
  room. An error on the way is emitted as \<open>joinRoomError\<close>; what was written stays.
\<close>

definition joinRoom ::
  "db_outcome \<Rightarrow> user \<Rightarrow> time \<Rightarrow> object_id \<Rightarrow> object_id \<Rightarrow> state \<Rightarrow> state \<times> effect list" where
  "joinRoom db u now new_id roomId s =
     (let uid = user_id u; currentRoom = userRoom s uid
      in if currentRoom = Some roomId then (s, [Emit (JoinRoomSuccess roomId None)])
         else (let (s1, t1) =
                     (case currentRoom of
                        None \<Rightarrow> (s, [])
                      | Some old \<Rightarrow>
                          (s\<lparr>userRoom := (userRoom s)(uid := None)\<rparr>,
                           [SocketLeave old, DelUserRoom uid,
                            ToOthers old (UserLeft uid (user_name u))]))
               in case roomColl s1 roomId of
                    None \<Rightarrow> (s1, t1 @ [Emit (JoinRoomError RoomNotFound)])
                  | Some room \<Rightarrow>
                      (let room' = room\<lparr>participants := addToSet uid (participants room)\<rparr>;
                           s2 = s1\<lparr>roomColl := (roomColl s1)(roomId \<mapsto> room'),
                                   userRoom := (userRoom s1)(uid \<mapsto> roomId)\<rparr>;
                           t2 = t1 @ [AddToSetParticipants roomId uid, SocketJoin roomId,
                                      SetUserRoom uid roomId]
                       in case save_message
                                 (new_message new_id roomId None TSystem
                                    (user_name u @ joined_suffix) now) s2 of
                            Inl err \<Rightarrow> (s2, t2 @ [Emit (JoinRoomError err)])
                          | Inr (joinMessage, s3) \<Rightarrow>
                              (case loadMessages db uid now roomId None BATCH_SIZE s3 of
                                 (Inl err, s4, t4) \<Rightarrow>
                                   (s4, t2 @ [InsertMessage joinMessage] @ t4 @
                                        [Emit (JoinRoomError err)])
                               | (Inr result, s4, t4) \<Rightarrow>
                                   (s4, t2 @ [InsertMessage joinMessage] @ t4 @
                                        [Emit (JoinRoomSuccess roomId
                                                 (Some (participants room', result))),
                                         ToRoom roomId (MessageEvent joinMessage),
                                         ToRoom roomId (ParticipantsUpdate (participants room'))])))))"

text \<open>
  \<open>chatMessage\<close>. The payload has \<open>room\<close>, \<open>type\<close>, \<open>content\<close>, \<open>fileData\<close> (its \<open>_id\<close>, when
  it has one) and the legacy field \<open>msg\<close>. \<open>session_valid\<close> is the answer of
  \<open>SessionService.validateSession\<close>. The checks run in the order of the code; for the type
  \<open>text\<close> the content is \<open>content?.trim() || messageData.msg?.trim()\<close> and the handler
  returns without any effect when that is empty. \<open>deliver\<close> is the common tail: save,
  append to the cache and keep its last \<open>RECENT_MESSAGE_CACHE\<close> entries, broadcast, then
  for each mentioned assistant call \<open>handleAIResponse\<close> with the content stripped of that
  mention and trimmed. The streaming of the assistant's reply is not part of the model; the
  call is recorded as one effect.
\<close>

record message_data =
  md_room :: "object_id option"
  md_type :: string
  md_content :: "js_string option"
  md_fileData :: "object_id option"
  md_msg :: "js_string option"

definition trimmed :: "js_string option \<Rightarrow> js_string" where
  "trimmed v = (case v of None \<Rightarrow> [] | Some c \<Rightarrow> trim c)"

definition deliver :: "user \<Rightarrow> object_id \<Rightarrow> js_string option \<Rightarrow> message \<Rightarrow> state \<Rightarrow> state \<times> effect list" where
  "deliver u room content m s =
     (case save_message m s of
        Inl err \<Rightarrow> (s, [Emit (MessageError err)])
      | Inr (message, s1) \<Rightarrow>
          (let cached = (case roomMessages s1 room of None \<Rightarrow> [] | Some c \<Rightarrow> c) @ [message];
               cached' = (if length cached > RECENT_MESSAGE_CACHE
                          then slice_from_end RECENT_MESSAGE_CACHE cached else cached);
               s2 = s1\<lparr>roomMessages := (roomMessages s1)(room \<mapsto> cached')\<rparr>
           in (s2, [InsertMessage message, CacheWrite room, ToRoom room (MessageEvent message)] @
                   map (\<lambda>ai. HandleAIResponse room ai
                                (trim (strip_mention ai (case content of None \<Rightarrow> [] | Some c \<Rightarrow> c))))
                       (extractAIMentions content) @
                   [UpdateLastActivity (user_id u)])))"

definition chatMessage ::
  "bool \<Rightarrow> user \<Rightarrow> time \<Rightarrow> object_id \<Rightarrow> message_data option \<Rightarrow> state \<Rightarrow> state \<times> effect list" where
  "chatMessage session_valid u now new_id messageData s =
     (case messageData of
        None \<Rightarrow> (s, [Emit (MessageError NoMessageData)])
      | Some md \<Rightarrow>
          (case md_room md of
             None \<Rightarrow> (s, [Emit (MessageError NoRoomInfo)])
           | Some room \<Rightarrow>
               if \<not> (case roomColl s room of None \<Rightarrow> False
                      | Some chatRoom \<Rightarrow> user_id u \<in> set (participants chatRoom))
               then (s, [Emit (MessageError NoRoomAccess)])
               else if \<not> session_valid then (s, [Emit (MessageError SessionExpired)])
               else if md_type md = ''file'' then
                 (case md_fileData md of
                    None \<Rightarrow> (s, [Emit (MessageError BadFileData)])
                  | Some fid \<Rightarrow>
                      if \<not> (case fileColl s fid of None \<Rightarrow> False
                             | Some f \<Rightarrow> file_user f = user_id u)
                      then (s, [Emit (MessageError FileNotFound)])
                      else deliver u room (md_content md)
                             ((new_message new_id room (Some (user_id u)) TFile
                                 (case md_content md of None \<Rightarrow> [] | Some c \<Rightarrow> c) now)
                              \<lparr>msg_file := Some fid\<rparr>) s)
               else if md_type md = ''text'' then
                 (let messageContent =
                        (if trimmed (md_content md) \<noteq> [] then trimmed (md_content md)
                         else trimmed (md_msg md))
                  in if messageContent = [] then (s, [])
                     else deliver u room (md_content md)
                            (new_message new_id room (Some (user_id u)) TText messageContent now) s)
               else (s, [Emit (MessageError UnsupportedType)])))"

text \<open>
  The connection handler: a previous socket of the same user that is still open in this
  process (\<open>sockets\<close> is \<open>io.sockets.sockets\<close>) is warned and closed after
  \<open>DUPLICATE_LOGIN_TIMEOUT\<close>; then the presence record is set to the new socket id. The
  read and the write are two awaited store calls; \<open>env\<close> is what others do in between.

  The disconnect handler: read the presence record and, if it names this socket, delete
  it; read and delete the occupancy record; delete the guard keys of the user and the
  retry counters with the same room; and, when the user occupied a room and the reason is
  neither a client namespace disconnect nor a duplicate login, save a system message, pull
  the user from the participants and broadcast both. An error is logged and nothing is
  emitted. The read of the presence record and its deletion are two awaited store calls
  with the comparison in between; \<open>env\<close> is what others do between the read and the
  deletion. The later store calls of the handler do not touch the presence record and are
  taken without interference.
\<close>

definition on_connection ::
  "(state \<Rightarrow> state) list \<Rightarrow> socket_id set \<Rightarrow> user \<Rightarrow> socket_id \<Rightarrow> state
     \<Rightarrow> state \<times> effect list" where
  "on_connection env sockets u sid s =
     (let uid = user_id u;
          t = (case connectedUser s uid of
                 None \<Rightarrow> []
               | Some previousSocketId \<Rightarrow>
                   if previousSocketId \<noteq> sid \<and> previousSocketId \<in> sockets
                   then [ToSocket previousSocketId DuplicateLogin,
                         After DUPLICATE_LOGIN_TIMEOUT (ToSocket previousSocketId SessionEnded),
                         After DUPLICATE_LOGIN_TIMEOUT (ForceDisconnect previousSocketId)]
                   else []);
          s0 = env_step env s
      in (s0\<lparr>connectedUser := (connectedUser s0)(uid \<mapsto> sid)\<rparr>, t))"

definition disconnect ::
  "(state \<Rightarrow> state) list \<Rightarrow> user \<Rightarrow> socket_id \<Rightarrow> string \<Rightarrow> time \<Rightarrow> object_id \<Rightarrow> state
     \<Rightarrow> state \<times> effect list" where
  "disconnect env u sid reason now new_id s =
     (let uid = user_id u;
          redisSocketId = connectedUser s uid;
          s0 = env_step env s;
          s1 = (if redisSocketId = Some sid
                then s0\<lparr>connectedUser := (connectedUser s0)(uid := None)\<rparr> else s0);
          roomId = userRoom s1 uid;
          s2 = s1\<lparr>userRoom := (userRoom s1)(uid := None)\<rparr>;
          s3 = s2\<lparr>messageQueue := {k \<in> messageQueue s2. snd k \<noteq> uid},
                  messageLoadRetry :=
                    (\<lambda>k. if snd k = uid \<and> k \<in> messageQueue s2 then None
                         else messageLoadRetry s2 k)\<rparr>
      in case roomId of
           None \<Rightarrow> (s3, [])
         | Some r \<Rightarrow>
             if reason \<noteq> ''client namespace disconnect'' \<and> reason \<noteq> ''duplicate_login''
             then (case save_message
                          (new_message new_id r None TSystem
                             (user_name u @ disconnected_suffix) now) s3 of
                     Inl err \<Rightarrow> (s3, [])
                   | Inr (leaveMessage, s4) \<Rightarrow>
                       (case roomColl s4 r of
                          None \<Rightarrow> (s4, [InsertMessage leaveMessage])
                        | Some room \<Rightarrow>
                            (let room' = room\<lparr>participants := pull uid (participants room)\<rparr>
                             in (s4\<lparr>roomColl := (roomColl s4)(r \<mapsto> room')\<rparr>,
                                 [InsertMessage leaveMessage, PullParticipants r uid,
                                  ToRoom r (MessageEvent leaveMessage),
                                  ToRoom r (ParticipantsUpdate (participants room'))]))))
             else (s3, []))"

text \<open>
  \<open>markMessagesAsRead\<close>: nothing happens for a missing or empty id list. Otherwise
  \<open>updateMany\<close> pushes the reader onto the named messages of the room that do not list the
  user yet. Then, for each id, the cached copy is looked up; when it exists and does not
  list the user, the code pushes \<open>{userId, readAt}\<close>, where \<open>readAt\<close> is not declared
  anywhere: evaluating it throws a \<open>ReferenceError\<close>. So the loop either throws or leaves
  the cache as it is, \<open>cacheChanged\<close> stays false and the cache is never rewritten. After
  the loop \<open>messagesRead\<close> goes to the others in the room; the \<open>catch\<close> block emits an
  error event to the sender.
\<close>

definition updateManyReaders ::
  "object_id list \<Rightarrow> object_id \<Rightarrow> object_id \<Rightarrow> time \<Rightarrow> message list \<Rightarrow> message list" where
  "updateManyReaders ids roomId uid now coll =
     map (\<lambda>m. if msg_id m \<in> set ids \<and> msg_room m = roomId \<and> \<not> has_read uid m
               then push_reader uid now m else m) coll"

fun patch_cache :: "object_id \<Rightarrow> message list \<Rightarrow> object_id list \<Rightarrow> error option" where
  "patch_cache uid cached [] = None"
| "patch_cache uid cached (messageId # rest) =
     (case List.find (\<lambda>m. msg_id m = messageId) cached of
        None \<Rightarrow> patch_cache uid cached rest
      | Some entry \<Rightarrow>
          if \<not> has_read uid entry then Some (ReferenceError ''readAt'')
          else patch_cache uid cached rest)"

definition markMessagesAsRead ::
  "user \<Rightarrow> time \<Rightarrow> object_id \<Rightarrow> object_id list option \<Rightarrow> state \<Rightarrow> state \<times> effect list" where
  "markMessagesAsRead u now roomId messageIds s =
     (case messageIds of
        None \<Rightarrow> (s, [])
      | Some ids \<Rightarrow>
          if ids = [] then (s, [])
          else (let uid = user_id u;
                    s1 = s\<lparr>messageColl := updateManyReaders ids roomId uid now (messageColl s)\<rparr>;
                    cached = (case roomMessages s1 roomId of None \<Rightarrow> [] | Some c \<Rightarrow> c)
                in case patch_cache uid cached ids of
                     Some err \<Rightarrow> (s1, [UpdateManyReaders ids roomId uid, Emit MarkReadError])
                   | None \<Rightarrow> (s1, [UpdateManyReaders ids roomId uid,
                                    ToOthers roomId (MessagesRead uid ids)])))"

subsection \<open>Reading a list of effects\<close>

text \<open>
  The events emitted to the calling connection, the events broadcast to rooms (with the
  room), and the messages of the page a load returned (none when it failed).
\<close>

fun emits :: "effect list \<Rightarrow> event list" where
  "emits [] = []"
| "emits (Emit e # t) = e # emits t"
| "emits (x # t) = emits t"


definition page_of :: "(error + page) \<times> state \<times> effect list \<Rightarrow> message list" where
  "page_of x = (case fst x of Inl e \<Rightarrow> [] | Inr p \<Rightarrow> messages p)"

subsection \<open>The parts of a join\<close>

text \<open>
  Names for what \<open>joinRoom\<close> produces on the way: the join message as it is stored
  (trimmed by the schema), the effects of leaving the previous room, if any, and the
  state after the participant list and the occupancy record were written and the join
  message was saved; \<open>entered_state\<close> is that state without the join message.
  \<open>join_failed\<close> holds of the answer of a join that ended with \<open>joinRoomError\<close>.
  \<open>is_join_message\<close> recognises the join messages of a user in a room.
\<close>

definition join_message :: "user \<Rightarrow> object_id \<Rightarrow> object_id \<Rightarrow> time \<Rightarrow> message" where
  "join_message u new_id roomId now =
     new_message new_id roomId None TSystem (trim (user_name u @ joined_suffix)) now"

definition leave_effects :: "user \<Rightarrow> state \<Rightarrow> effect list" where
  "leave_effects u s =
     (case userRoom s (user_id u) of
        None \<Rightarrow> []
      | Some old \<Rightarrow> [SocketLeave old, DelUserRoom (user_id u),
                     ToOthers old (UserLeft (user_id u) (user_name u))])"

definition joined_state :: "user \<Rightarrow> object_id \<Rightarrow> object_id \<Rightarrow> time \<Rightarrow> room \<Rightarrow> state \<Rightarrow> state" where
  "joined_state u new_id roomId now room s =
     s\<lparr>roomColl := (roomColl s)(roomId \<mapsto>
                      room\<lparr>participants := addToSet (user_id u) (participants room)\<rparr>),
       userRoom := (userRoom s)(user_id u \<mapsto> roomId),
       messageColl := messageColl s @ [join_message u new_id roomId now]\<rparr>"




subsection \<open>Sample states\<close>

text \<open>
  A user and the states at which the theorems below are evaluated: what a concurrent
  successful load of the first page of room 1 by the same user does to the state; a
  presence record that names socket a, and what the connection of a newer socket b of the
  same user does to the state; a user whose name has 10000 letters; a room with two and
  with thirty-one messages and no cache entry; a room whose guard key is present for the
  user, who is not, or is, a participant; a room with one message that is also in the
  cache and unread; the user occupying room 1 next to a password-protected room 2; a room
  the user is a participant of, and a text payload for it.
\<close>

definition ann :: user where
  "ann = \<lparr>user_id = 7, user_name = js ''ann'', user_sessionId = ''s1''\<rparr>"


definition present_a :: state where
  "present_a = init_state\<lparr>connectedUser := [7 \<mapsto> ''a'']\<rparr>"

definition newer_connection :: "state \<Rightarrow> state" where
  "newer_connection s = fst (on_connection [] {''a''} ann ''b'' s)"


definition two_messages :: state where
  "two_messages = init_state\<lparr>messageColl :=
      [new_message 10 1 (Some 8) TText (js ''first'') 100,
       new_message 11 1 (Some 8) TText (js ''second'') 200]\<rparr>"

definition thirty_one_messages :: state where
  "thirty_one_messages = init_state\<lparr>messageColl :=
      map (\<lambda>i. new_message i 1 (Some 8) TText (js ''m'') (int i)) [1..<32]\<rparr>"

definition guarded_outsider :: state where
  "guarded_outsider = init_state\<lparr>messageQueue := {(1, 7)},
      roomColl := [1 \<mapsto> \<lparr>participants = [8], hasPassword = False\<rparr>]\<rparr>"

definition guarded_member :: state where
  "guarded_member = init_state\<lparr>messageQueue := {(1, 7)},
      roomColl := [1 \<mapsto> \<lparr>participants = [7, 8], hasPassword = False\<rparr>]\<rparr>"

definition cached_unread :: state where
  "cached_unread = init_state\<lparr>
      messageColl := [new_message 10 1 (Some 8) TText (js ''hi'') 500],
      roomMessages := [1 \<mapsto> [new_message 10 1 (Some 8) TText (js ''hi'') 500]]\<rparr>"

definition two_rooms :: state where
  "two_rooms = init_state\<lparr>
      userRoom := [7 \<mapsto> 1],
      roomColl := [1 \<mapsto> \<lparr>participants = [7, 8], hasPassword = False\<rparr>,
                   2 \<mapsto> \<lparr>participants = [9], hasPassword = True\<rparr>]\<rparr>"

definition one_room :: state where
  "one_room = init_state\<lparr>roomColl := [1 \<mapsto> \<lparr>participants = [7, 8], hasPassword = False\<rparr>]\<rparr>"

definition text_data :: "js_string \<Rightarrow> message_data" where
  "text_data c = \<lparr>md_room = Some 1, md_type = ''text'', md_content = Some c,
                  md_fileData = None, md_msg = None\<rparr>"


section \<open>Reactions keep their invariant\<close>

lemma entries_update:
  "list_all P rs \<Longrightarrow> P (k, v) \<Longrightarrow> list_all P (AList.update k v rs)"
  by (induction rs) auto

lemma entries_delete:
  "list_all P rs \<Longrightarrow> list_all P (AList.delete k rs)"
  by (induction rs) auto

lemma entries_lookup:
  "list_all P rs \<Longrightarrow> map_of rs k = Some v \<Longrightarrow> P (k, v)"
  by (induction rs) (auto split: if_splits)

lemma addReaction_ok:
  assumes "reactions_ok d"
  shows "reactions_ok (fst (addReaction s e u d))"
proof (cases d)
  case None
  then show ?thesis
    by (simp add: addReaction_def reactions_ok_def Let_def)
next
  case (Some rs)
  with assms have dk: "distinct (map fst rs)"
    and en: "list_all (\<lambda>(l, us). us \<noteq> [] \<and> distinct us) rs"
    by (simp_all add: reactions_ok_def)
  show ?thesis
  proof (cases "map_of rs e")
    case None
    with Some dk en show ?thesis
      by (simp add: addReaction_def reactions_ok_def Let_def distinct_update entries_update)
  next
    case (Some us)
    from entries_lookup [OF en Some] have "distinct us" by simp
    with \<open>d = Some rs\<close> Some dk en show ?thesis
      by (simp add: addReaction_def reactions_ok_def Let_def distinct_update entries_update)
  qed
qed

lemma removeReaction_ok:
  assumes "reactions_ok d"
  shows "reactions_ok (fst (removeReaction s e u d))"
proof (cases d)
  case None
  then show ?thesis
    by (simp add: removeReaction_def reactions_ok_def)
next
  case (Some rs)
  with assms have dk: "distinct (map fst rs)"
    and en: "list_all (\<lambda>(l, us). us \<noteq> [] \<and> distinct us) rs"
    by (simp_all add: reactions_ok_def)
  show ?thesis
  proof (cases "map_of rs e")
    case None
    with Some assms show ?thesis
      by (simp add: removeReaction_def)
  next
    case (Some us)
    from entries_lookup [OF en Some] have "distinct us" by simp
    then have "distinct (filter (\<lambda>i. i \<noteq> u) us)" by simp
    with \<open>d = Some rs\<close> Some dk en show ?thesis
      by (simp add: removeReaction_def reactions_ok_def Let_def distinct_update
          distinct_delete entries_update entries_delete)
  qed
qed

lemma apply_reaction_ok:
  assumes "reactions_ok d"
  shows "reactions_ok (apply_reaction x d)"
proof (cases x)
  case (Pair c save_ok)
  with assms show ?thesis
    by (cases c) (simp_all add: addReaction_ok removeReaction_ok)
qed

lemma apply_reactions_ok: "reactions_ok d \<Longrightarrow> reactions_ok (apply_reactions xs d)"
  by (induction xs arbitrary: d) (simp_all add: apply_reaction_ok)

lemma reactions_ok_lookup:
  "reactions_ok d \<Longrightarrow> reactors d l = Some us \<Longrightarrow> us \<noteq> [] \<and> distinct us"
  by (cases d) (auto simp: reactions_ok_def reactors_def dest: entries_lookup)

lemma addReaction_returns:
  "addReaction s e u d = (d', Inr r) \<Longrightarrow> r = reactors d' e"
  by (auto simp: addReaction_def reactors_def Let_def split: if_splits option.splits)

lemma removeReaction_returns:
  "removeReaction s e u d = (d', Inr r) \<Longrightarrow> r = reactors d' e"
  by (auto simp: removeReaction_def reactors_def Let_def split: if_splits option.splits)

text \<open>
  Claim C10. Starting from a message whose reaction map is well formed (in particular the
  empty map of a new message), after every sequence of \<open>addReaction\<close> and
  \<open>removeReaction\<close> calls no label maps to an empty reactor list and no reactor id occurs
  twice under a label; and each call that returns, returns the label's reactor list as it
  is after the update (absent when the label has no entry).
\<close>

theorem reactions_invariant:
  "(reactions_ok d \<longrightarrow>
      reactions_ok (apply_reactions ops d) \<and>
      (\<forall>l us. reactors (apply_reactions ops d) l = Some us \<longrightarrow> us \<noteq> [] \<and> distinct us)) \<and>
   (addReaction s e u d = (d', Inr r) \<longrightarrow> r = reactors d' e) \<and>
   (removeReaction s e u d = (d', Inr r) \<longrightarrow> r = reactors d' e)"
  using apply_reactions_ok reactions_ok_lookup addReaction_returns removeReaction_returns
  by blast

theorem reactions_invariant_witness:
  "reactions_ok (Some []) \<and>
   apply_reactions [(Add ''like'' 1, True), (Add ''like'' 2, True), (Add ''like'' 1, True),
                    (Remove ''like'' 2, True), (Add ''wow'' 3, True), (Remove ''wow'' 3, True)]
      (Some []) = Some [(''like'', [1])] \<and>
   reactions_ok (Some [(''like'', [1])]) \<and>
   addReaction True ''like'' 1 (Some []) = (Some [(''like'', [1])], Inr (Some [1])) \<and>
   Some [1] = reactors (Some [(''like'', [1])]) ''like'' \<and>
   removeReaction True ''like'' 1 (Some [(''like'', [1])]) = (Some [], Inr None) \<and>
   None = reactors (Some []) ''like''"
proof -
  let ?ops = "[(Add ''like'' 1, True), (Add ''like'' 2, True), (Add ''like'' 1, True),
               (Remove ''like'' 2, True), (Add ''wow'' 3, True), (Remove ''wow'' 3, True)]"
  have run: "apply_reactions ?ops (Some []) = Some [(''like'', [1])]"
    by (simp add: addReaction_def removeReaction_def Let_def)
  have a: "addReaction True ''like'' 1 (Some []) = (Some [(''like'', [1])], Inr (Some [1]))"
    by (simp add: addReaction_def Let_def)
  have r: "removeReaction True ''like'' 1 (Some [(''like'', [1])]) = (Some [], Inr None)"
    by (simp add: removeReaction_def Let_def)
  have ok0: "reactions_ok (Some [])"
    by (simp add: reactions_ok_def)
  from reactions_invariant [of "Some []" ?ops True "''like''" 1 "Some [(''like'', [1])]" "Some [1]"]
    ok0 a
  have 1: "reactions_ok (apply_reactions ?ops (Some []))"
    and 2: "Some [1] = reactors (Some [(''like'', [1])]) ''like''"
    by blast+
  from reactions_invariant [of "Some [(''like'', [1])]" "[]" True "''like''" 1 "Some []" None] r
  have 3: "None = reactors (Some []) ''like''"
    by blast
  from ok0 run 1 2 3 a r show ?thesis by simp
qed


section \<open>Bounded retry of a history load\<close>













lemmas eval_defs = loadMessagesWithRetry.simps init_state_def loadMessages_def Number_def
  MAX_RETRIES_def retry_delay_def RETRY_DELAY_def BATCH_SIZE_def RECENT_MESSAGE_CACHE_def
  aggregate_def matchStage_def bulkMarkRead_def has_read_def push_reader_def
  first_timestamp_def new_message_def retry_counter_def slice_from_end_def env_step_def Let_def





section \<open>History pages\<close>

text \<open>
  On the store path (a \<open>before\<close> bound is given, or the cache has no entry for the room) the
  page is in ascending timestamp order, \<open>hasMore\<close> holds exactly when more than \<open>limit\<close>
  eligible messages exist, and \<open>oldestTimestamp\<close> is the timestamp of the first message.
\<close>

lemma store_path_page:
  assumes "before \<noteq> None \<or> roomMessages s roomId = None \<or> roomMessages s roomId = Some []"
  shows "\<exists>p s' t. loadMessages DbOk uid now roomId before limit s = (Inr p, s', t) \<and>
           sorted (map msg_timestamp (messages p)) \<and>
           hasMore p = (limit < length (filter (matchStage roomId before) (messageColl s))) \<and>
           oldestTimestamp p = first_timestamp (messages p) \<and>
           length (messages p) \<le> limit"
  using assms
  by (auto simp: loadMessages_def Let_def aggregate_def sorted_sort_key
           split: option.splits)

text \<open>
  On a cache hit (no \<open>before\<close>, a non-empty cache entry) the answer is read off the cache
  alone: it does not depend on the store or on its outcome, the state is unchanged and
  no query is sent.
\<close>

lemma cache_hit_page:
  assumes "roomMessages s roomId = Some cachedMessages" and "cachedMessages \<noteq> []"
  shows "loadMessages db uid now roomId None limit s =
           (Inr \<lparr>messages = (if length cachedMessages > limit
                                then slice_from_end limit cachedMessages else cachedMessages),
                  hasMore = (length cachedMessages > limit),
                  oldestTimestamp = first_timestamp
                    (if length cachedMessages > limit
                     then slice_from_end limit cachedMessages else cachedMessages)\<rparr>,
            s, [])"
  using assms by (simp add: loadMessages_def Let_def)

text \<open>
  Claim C1. The page of a history load is in ascending timestamp order and its
  \<open>oldestTimestamp\<close> is that of the oldest returned message. The store path does this, the
  cache-hit path does not: \<open>loadMessages\<close> writes the cache from the query result, which is
  newest first, and a hit returns the cached list as it is. With two messages in a room, the
  first load returns them oldest first; the second load, served from the cache the first
  one wrote, returns them newest first and reports the newest timestamp as the oldest.
\<close>

theorem cache_hit_descending:
  "fst (loadMessages DbOk 7 1000 1 None BATCH_SIZE two_messages) =
     Inr \<lparr>messages = [new_message 10 1 (Some 8) TText (js ''first'') 100,
                       new_message 11 1 (Some 8) TText (js ''second'') 200],
          hasMore = False, oldestTimestamp = Some 100\<rparr> \<and>
   fst (loadMessages DbOk 7 2000 1 None BATCH_SIZE
          (fst (snd (loadMessages DbOk 7 1000 1 None BATCH_SIZE two_messages)))) =
     Inr \<lparr>messages = [new_message 11 1 (Some 8) TText (js ''second'') 200,
                       new_message 10 1 (Some 8) TText (js ''first'') 100],
          hasMore = False, oldestTimestamp = Some 200\<rparr> \<and>
   \<not> sorted (map msg_timestamp [new_message 11 1 (Some 8) TText (js ''second'') 200,
                                  new_message 10 1 (Some 8) TText (js ''first'') 100])"
  by (simp add: eval_defs two_messages_def js_def)

text \<open>
  Claim C2. A cache hit returns the same most-recent messages as a cache miss. With 31
  messages in a room the miss returns the 30 newest (ids 2 to 31) and caches all 31 newest
  first; the following hit keeps the last 30 entries of that list, which drops the newest
  message (id 31) and returns the oldest one (id 1) instead. The hit issues no store query.
\<close>

theorem cache_hit_differs_from_miss:
  "map msg_id (page_of (loadMessages DbOk 7 1000 1 None BATCH_SIZE thirty_one_messages)) = [2..<32] \<and>
   map msg_id (page_of (loadMessages DbOk 7 2000 1 None BATCH_SIZE
          (fst (snd (loadMessages DbOk 7 1000 1 None BATCH_SIZE thirty_one_messages))))) = rev [1..<31] \<and>
   snd (snd (loadMessages DbOk 7 2000 1 None BATCH_SIZE
          (fst (snd (loadMessages DbOk 7 1000 1 None BATCH_SIZE thirty_one_messages))))) = []"
  by code_simp


section \<open>The load-in-flight guard\<close>

text \<open>
  The membership check of \<open>fetchPreviousMessages\<close> comes before the guard check: a request
  for a room the identity is not a participant of is answered with an error event even
  while the guard key is present.
\<close>

theorem guard_does_not_silence_outsider:
  "(1, user_id ann) \<in> messageQueue guarded_outsider \<and>
   snd (fetchPreviousMessages [] (\<lambda>_. DbOk) ann 1000 1 None guarded_outsider) =
     [Emit (LoadError NoRoomAccess), After LOAD_DELAY (DelMessageQueue 1 7)]"
  by (simp add: fetchPreviousMessages_def guarded_outsider_def ann_def init_state_def Let_def)

text \<open>
  Claim C4, amended. For a participant of the room, a \<open>fetchPreviousMessages\<close> request that
  finds the guard key of (room, identity) present is dropped: the state is unchanged, no
  load is started and no event at all is emitted to the connection; only the delayed
  release of the guard key is scheduled.
\<close>

theorem fetchPrevious_dropped_while_guarded:
  assumes "roomColl s roomId = Some room"
    and "user_id u \<in> set (participants room)"
    and "(roomId, user_id u) \<in> messageQueue s"
  shows "fetchPreviousMessages env db u now roomId before s =
           (s, [After LOAD_DELAY (DelMessageQueue roomId (user_id u))]) \<and>
         attempts (snd (fetchPreviousMessages env db u now roomId before s)) = 0 \<and>
         emits (snd (fetchPreviousMessages env db u now roomId before s)) = []"
  using assms by (simp add: fetchPreviousMessages_def Let_def)

theorem fetchPrevious_dropped_while_guarded_witness:
  "roomColl guarded_member 1 = Some \<lparr>participants = [7, 8], hasPassword = False\<rparr> \<and>
   user_id ann \<in> set [7, 8] \<and> (1, user_id ann) \<in> messageQueue guarded_member \<and>
   fetchPreviousMessages [] (\<lambda>_. DbOk) ann 1000 1 (Some 500) guarded_member =
     (guarded_member, [After LOAD_DELAY (DelMessageQueue 1 7)]) \<and>
   attempts (snd (fetchPreviousMessages [] (\<lambda>_. DbOk) ann 1000 1 (Some 500) guarded_member)) = 0 \<and>
   emits (snd (fetchPreviousMessages [] (\<lambda>_. DbOk) ann 1000 1 (Some 500) guarded_member)) = []"
proof -
  have r: "roomColl guarded_member 1 = Some \<lparr>participants = [7, 8], hasPassword = False\<rparr>"
    by (simp add: guarded_member_def init_state_def)
  have p: "user_id ann \<in> set (participants \<lparr>participants = [7, 8], hasPassword = False\<rparr>)"
    by (simp add: ann_def)
  have g: "(1, user_id ann) \<in> messageQueue guarded_member"
    by (simp add: guarded_member_def init_state_def ann_def)
  from fetchPrevious_dropped_while_guarded [OF r p g, of "[]" "\<lambda>_. DbOk" 1000 "Some 500"] r p g
  show ?thesis by (simp add: ann_def)
qed


section \<open>The presence record\<close>

lemma save_message_connectedUser:
  "save_message m s = Inr (d, s') \<Longrightarrow> connectedUser s' = connectedUser s"
  by (auto simp: save_message_def Let_def split: if_splits)

lemma disconnect_presence:
  "connectedUser (fst (disconnect env u sid reason now new_id s)) =
     (if connectedUser s (user_id u) = Some sid
      then (connectedUser (env_step env s))(user_id u := None)
      else connectedUser (env_step env s))"
  by (auto simp: disconnect_def Let_def split: option.splits sum.splits dest!: save_message_connectedUser)

text \<open>
  Whatever happens in between, a new connection leaves the presence record of its identity
  pointing at itself. Without interference, a disconnect deletes the record only when it
  names the disconnecting socket and never touches the record of another identity, so
  that the disconnect of an older socket after the connection of a newer one leaves the
  record of the newer session in place.
\<close>

lemma connection_overwrites:
  "connectedUser (fst (on_connection env sockets u sid s)) (user_id u) = Some sid"
  by (simp add: on_connection_def Let_def)

lemma presence_undisturbed:
  "connectedUser (fst (disconnect [] u sid reason now new_id s)) (user_id u) =
     (if connectedUser s (user_id u) = Some sid then None else connectedUser s (user_id u)) \<and>
   (v \<noteq> user_id u \<longrightarrow>
      connectedUser (fst (disconnect [] u sid reason now new_id s)) v = connectedUser s v) \<and>
   (old \<noteq> sid \<longrightarrow>
      connectedUser (fst (disconnect [] u old reason now new_id
                            (fst (on_connection env sockets u sid s)))) (user_id u) = Some sid)"
  by (simp add: disconnect_presence env_step_def) (simp add: on_connection_def Let_def)

text \<open>
  Claim C7. A stale disconnect of an older connection never evicts the presence record of
  a newer session. The handler reads the record, compares, and deletes in a separate store
  call. Socket a of identity 7 disconnects while the record names a; between the read and
  the deletion the newer socket b of the same identity connects and overwrites the record;
  the deletion then removes the record of the newer session.
\<close>

theorem stale_disconnect_evicts_newer_session:
  "connectedUser present_a 7 = Some ''a'' \<and>
   connectedUser (newer_connection present_a) 7 = Some ''b'' \<and>
   connectedUser (fst (disconnect [newer_connection] ann ''a'' ''transport close'' 1000 50
                         present_a)) 7 = None"
  by (simp add: disconnect_presence)
     (simp add: present_a_def newer_connection_def on_connection_def env_step_def
        init_state_def ann_def Let_def)


section \<open>Read receipts\<close>

lemma push_reader_has_read: "has_read uid (push_reader uid now m)"
  by (simp add: has_read_def push_reader_def)

lemma updateManyReaders_idem:
  "updateManyReaders ids roomId uid now' (updateManyReaders ids roomId uid now coll) =
     updateManyReaders ids roomId uid now coll"
proof -
  have "\<And>m. msg_id (push_reader uid now m) = msg_id m \<and>
             msg_room (push_reader uid now m) = msg_room m"
    by (simp add: push_reader_def)
  then show ?thesis
    by (simp add: updateManyReaders_def push_reader_has_read)
qed


text \<open>
  Claim C9. After the store update, \<open>markMessagesAsRead\<close> patches the cached copies and then
  broadcasts \<open>messagesRead\<close>. The patch reads the undeclared variable \<open>readAt\<close>: as soon as a
  named message is in the cache without the reader, the handler throws, the sender gets an
  error event and the broadcast is never sent, although the store was already updated.
\<close>

theorem markRead_cache_patch_fails:
  "snd (markMessagesAsRead ann 1000 1 (Some [10]) cached_unread) =
     [UpdateManyReaders [10] 1 7, Emit MarkReadError] \<and>
   map msg_readers (messageColl (fst (markMessagesAsRead ann 1000 1 (Some [10]) cached_unread))) =
     [[(7, 1000)]] \<and>
   roomMessages (fst (markMessagesAsRead ann 1000 1 (Some [10]) cached_unread)) 1 =
     Some [new_message 10 1 (Some 8) TText (js ''hi'') 500]"
  by (simp add: markMessagesAsRead_def cached_unread_def init_state_def ann_def Let_def
      updateManyReaders_def has_read_def push_reader_def new_message_def)


section \<open>Joining a room\<close>

subsection \<open>Trimming\<close>

lemma trim_eq_Nil: "trim s = [] \<longleftrightarrow> (\<forall>c \<in> set s. is_space c)"
proof -
  have "trim s = [] \<longleftrightarrow> (\<forall>c \<in> set (dropWhile is_space s). is_space c)"
    by (simp only: trim_def rev_is_Nil_conv dropWhile_eq_Nil_conv set_rev)
  also have "\<dots> \<longleftrightarrow> dropWhile is_space s = []"
    using hd_dropWhile [of is_space s]
    by (cases "dropWhile is_space s") (auto dest: set_dropWhileD)
  also have "\<dots> \<longleftrightarrow> (\<forall>c \<in> set s. is_space c)"
    by (simp add: dropWhile_eq_Nil_conv)
  finally show ?thesis .
qed

lemma length_trim: "length (trim s) \<le> length s"
proof -
  have "length (dropWhile is_space (rev (dropWhile is_space s))) \<le> length (rev (dropWhile is_space s))"
    by (rule length_dropWhile_le)
  also have "\<dots> \<le> length s"
    by (simp add: length_dropWhile_le)
  finally show ?thesis by (simp add: trim_def)
qed

lemma trim_idem: "trim (trim s) = trim s"
proof -
  let ?y = "dropWhile is_space s"
  let ?z = "dropWhile is_space (rev ?y)"
  have x: "trim s = rev ?z" by (simp add: trim_def)
  have "?y = rev ?z @ rev (takeWhile is_space (rev ?y))"
    by (metis rev_append rev_rev_ident takeWhile_dropWhile_id)
  then obtain w where y: "?y = rev ?z @ w" ..
  have "dropWhile is_space (rev ?z) = rev ?z"
  proof (cases "rev ?z")
    case Nil
    show ?thesis by (simp only: Nil dropWhile.simps)
  next
    case (Cons a as)
    with y have "?y = a # as @ w" by simp
    then have "hd ?y = a" and "?y \<noteq> []" by simp_all
    with hd_dropWhile [of is_space s] have "\<not> is_space a" by blast
    with Cons show ?thesis by simp
  qed
  then show ?thesis
    by (simp add: x) (simp add: trim_def)
qed

lemma joined_suffix_not_blank: "trim (n @ joined_suffix) \<noteq> []"
  by (simp add: trim_eq_Nil joined_suffix_def is_space_def)

subsection \<open>What a history load leaves alone\<close>

lemma loadMessages_state:
  "loadMessages d uid now roomId before limit s = (r, s', t) \<Longrightarrow>
     userRoom s' = userRoom s \<and> roomColl s' = roomColl s \<and> connectedUser s' = connectedUser s \<and>
     messageQueue s' = messageQueue s \<and>
     map msg_id (messageColl s') = map msg_id (messageColl s) \<and>
     map msg_type (messageColl s') = map msg_type (messageColl s) \<and>
     map msg_content (messageColl s') = map msg_content (messageColl s) \<and>
     map msg_room (messageColl s') = map msg_room (messageColl s) \<and>
     emits t = []"
  by (auto simp: loadMessages_def Let_def bulkMarkRead_def push_reader_def
           split: if_splits db_outcome.splits)


subsection \<open>The join sequence\<close>

lemma save_join_message:
  "save_message (new_message new_id roomId None TSystem (user_name u @ joined_suffix) now) s =
     (if length (trim (user_name u @ joined_suffix)) \<le> 10000
      then Inr (join_message u new_id roomId now,
                s\<lparr>messageColl := messageColl s @ [join_message u new_id roomId now]\<rparr>)
      else Inl ValidationError)"
  by (simp add: save_message_def Let_def join_message_def new_message_def valid_message_def
      joined_suffix_not_blank)

lemma joinRoom_unfold:
  assumes other: "userRoom s (user_id u) \<noteq> Some roomId"
    and room: "roomColl s roomId = Some room"
    and name: "length (trim (user_name u @ joined_suffix)) \<le> 10000"
    and load: "loadMessages db (user_id u) now roomId None BATCH_SIZE
                 (joined_state u new_id roomId now room s) = (r, s', t4)"
  shows "joinRoom db u now new_id roomId s =
           (s', leave_effects u s @
                [AddToSetParticipants roomId (user_id u), SocketJoin roomId,
                 SetUserRoom (user_id u) roomId,
                 InsertMessage (join_message u new_id roomId now)] @ t4 @
                (case r of
                   Inl err \<Rightarrow> [Emit (JoinRoomError err)]
                 | Inr result \<Rightarrow>
                     [Emit (JoinRoomSuccess roomId
                              (Some (addToSet (user_id u) (participants room), result))),
                      ToRoom roomId (MessageEvent (join_message u new_id roomId now)),
                      ToRoom roomId (ParticipantsUpdate
                                       (addToSet (user_id u) (participants room)))]))"
proof (cases "userRoom s (user_id u)")
  case None
  with room load show ?thesis
    by (cases r)
       (simp_all add: joinRoom_def Let_def leave_effects_def joined_state_def
          save_join_message name)
next
  case (Some old)
  with other room load show ?thesis
    by (cases r)
       (simp_all add: joinRoom_def Let_def leave_effects_def joined_state_def
          save_join_message name)
qed

lemma joinRoom_invalid_name:
  assumes other: "userRoom s (user_id u) \<noteq> Some roomId"
    and name: "\<not> length (trim (user_name u @ joined_suffix)) \<le> 10000"
  shows "emits (snd (joinRoom db u now new_id roomId s)) =
           [JoinRoomError (if roomColl s roomId = None then RoomNotFound else ValidationError)]"
  using other name
  by (cases "userRoom s (user_id u)"; cases "roomColl s roomId")
     (simp_all add: joinRoom_def Let_def save_join_message)

lemma emits_append: "emits (t @ v) = emits t @ emits v"
  by (induction t rule: emits.induct) simp_all


lemma emits_leave_effects: "emits (leave_effects u s) = []"
  by (simp add: leave_effects_def split: option.splits)

lemma set_addToSet: "set (addToSet x xs) = insert x (set xs)"
  by (auto simp: addToSet_def)

lemma distinct_addToSet: "distinct xs \<Longrightarrow> distinct (addToSet x xs)"
  by (simp add: addToSet_def)

lemma addToSet_idem: "addToSet x (addToSet x xs) = addToSet x xs"
  by (simp add: addToSet_def)


lemmas join_eval = joinRoom_def two_rooms_def ann_def save_message_def valid_message_def
  addToSet_def trim_def is_space_def joined_suffix_def js_def join_message_def eval_defs

text \<open>
  Claim C5. Joining another room removes the identity from the previous room, updating
  that room's persisted participant list, and verifies that a password-protected target
  room is accessible. Identity 7 occupies room 1 and joins the password-protected room 2.
  The handler takes no password and never reads \<open>hasPassword\<close>: the identity is added to
  room 2 and gets the full answer. It leaves the socket room of room 1, clears the
  occupancy record and emits \<open>userLeft\<close> there, but issues no update of room 1's persisted
  participant list, which still names the identity afterwards. The rest of the sequence
  is as claimed: participant added, socket room joined, occupancy set, join message saved,
  page loaded, one answer, two broadcasts.
\<close>

theorem join_keeps_previous_membership:
  "userRoom two_rooms (user_id ann) = Some 1 \<and>
   map_option hasPassword (roomColl two_rooms 2) = Some True \<and>
   snd (joinRoom DbOk ann 1000 50 2 two_rooms) =
     [SocketLeave 1, DelUserRoom 7, ToOthers 1 (UserLeft 7 (js ''ann'')),
      AddToSetParticipants 2 7, SocketJoin 2, SetUserRoom 7 2,
      InsertMessage (join_message ann 50 2 1000),
      Aggregate 2 None 30, BulkMarkRead [50] 7, CacheWrite 2,
      Emit (JoinRoomSuccess 2 (Some ([9, 7],
              \<lparr>messages = [join_message ann 50 2 1000], hasMore = False,
               oldestTimestamp = Some 1000\<rparr>))),
      ToRoom 2 (MessageEvent (join_message ann 50 2 1000)),
      ToRoom 2 (ParticipantsUpdate [9, 7])] \<and>
   map_option participants (roomColl (fst (joinRoom DbOk ann 1000 50 2 two_rooms)) 1) =
     Some [7, 8]"
  by (simp add: join_eval)

lemma joinRoom_found:
  assumes other: "userRoom s (user_id u) \<noteq> Some roomId"
    and room: "roomColl s roomId = Some room"
    and name: "length (trim (user_name u @ joined_suffix)) \<le> 10000"
    and load: "loadMessages db (user_id u) now roomId None BATCH_SIZE
                 (joined_state u new_id roomId now room s) = (Inr result, s', t4)"
  shows "joinRoom db u now new_id roomId s =
           (s', leave_effects u s @
                [AddToSetParticipants roomId (user_id u), SocketJoin roomId,
                 SetUserRoom (user_id u) roomId,
                 InsertMessage (join_message u new_id roomId now)] @ t4 @
                [Emit (JoinRoomSuccess roomId
                         (Some (addToSet (user_id u) (participants room), result))),
                 ToRoom roomId (MessageEvent (join_message u new_id roomId now)),
                 ToRoom roomId (ParticipantsUpdate (addToSet (user_id u) (participants room)))]) \<and>
         emits (snd (joinRoom db u now new_id roomId s)) =
           [JoinRoomSuccess roomId (Some (addToSet (user_id u) (participants room), result))] \<and>
         set (addToSet (user_id u) (participants room)) = insert (user_id u) (set (participants room)) \<and>
         addToSet (user_id u) (addToSet (user_id u) (participants room)) =
           addToSet (user_id u) (participants room) \<and>
         map_option participants (roomColl s' roomId) =
           Some (addToSet (user_id u) (participants room)) \<and>
         userRoom s' (user_id u) = Some roomId \<and>
         map msg_id (messageColl s') = map msg_id (messageColl s) @ [new_id] \<and>
         map msg_content (messageColl s') =
           map msg_content (messageColl s) @ [trim (user_name u @ joined_suffix)]"
proof -
  note run = joinRoom_unfold [OF other room name load]
  from loadMessages_state [OF load]
  have st: "userRoom s' = userRoom (joined_state u new_id roomId now room s)"
    "roomColl s' = roomColl (joined_state u new_id roomId now room s)"
    "map msg_id (messageColl s') = map msg_id (messageColl (joined_state u new_id roomId now room s))"
    "map msg_content (messageColl s') =
       map msg_content (messageColl (joined_state u new_id roomId now room s))"
    "emits t4 = []"
    by simp_all
  have e: "emits (snd (joinRoom db u now new_id roomId s)) =
           [JoinRoomSuccess roomId (Some (addToSet (user_id u) (participants room), result))]"
    by (simp add: run emits_append emits_leave_effects st(5))
  have p: "map_option participants (roomColl s' roomId) =
           Some (addToSet (user_id u) (participants room))"
    by (simp add: st(2) joined_state_def)
  have o: "userRoom s' (user_id u) = Some roomId"
    by (simp add: st(1) joined_state_def)
  have i: "map msg_id (messageColl s') = map msg_id (messageColl s) @ [new_id]"
    by (simp add: st(3) joined_state_def join_message_def new_message_def)
  have c: "map msg_content (messageColl s') =
           map msg_content (messageColl s) @ [trim (user_name u @ joined_suffix)]"
    by (simp add: st(4) joined_state_def join_message_def new_message_def)
  from run e p o i c show ?thesis
    by (simp add: set_addToSet addToSet_idem)
qed

lemma joinRoom_missing_room:
  assumes other: "userRoom s (user_id u) \<noteq> Some roomId"
    and room: "roomColl s roomId = None"
  shows "snd (joinRoom db u now new_id roomId s) =
           leave_effects u s @ [Emit (JoinRoomError RoomNotFound)] \<and>
         roomColl (fst (joinRoom db u now new_id roomId s)) = roomColl s \<and>
         messageColl (fst (joinRoom db u now new_id roomId s)) = messageColl s"
  using other room
  by (cases "userRoom s (user_id u)") (simp_all add: joinRoom_def Let_def leave_effects_def)

subsection \<open>Joining twice\<close>











section \<open>Sending a text message\<close>

lemmas chat_eval = chatMessage_def deliver_def one_room_def text_data_def ann_def
  save_message_def valid_message_def trimmed_def trim_def is_space_def is_word_def js_def
  extractAIMentions_def mention_at_def wayneAI_def consultingAI_def eval_defs

text \<open>
  The emptiness check of a text message is made on the trimmed content as sent; mentions
  are stripped only later, to build the query for the assistant. A text that consists of
  a mention alone is empty once the mention is stripped, yet it is persisted, cached and
  broadcast, and the assistant is called with an empty query.
\<close>

theorem mention_only_text_is_sent:
  "trim (strip_mention wayneAI (js ''@wayneAI'')) = [] \<and>
   snd (chatMessage True ann 1000 50 (Some (text_data (js ''@wayneAI''))) one_room) =
     [InsertMessage (new_message 50 1 (Some 7) TText (js ''@wayneAI'') 1000),
      CacheWrite 1,
      ToRoom 1 (MessageEvent (new_message 50 1 (Some 7) TText (js ''@wayneAI'') 1000)),
      HandleAIResponse 1 wayneAI [],
      UpdateLastActivity 7] \<and>
   messageColl (fst (chatMessage True ann 1000 50 (Some (text_data (js ''@wayneAI''))) one_room)) =
     [new_message 50 1 (Some 7) TText (js ''@wayneAI'') 1000]"
  by (simp add: chat_eval)

lemma trim_trimmed: "trim (trimmed v) = trimmed v"
  by (cases v) (simp_all add: trimmed_def trim_idem, simp add: trim_def)

text \<open>
  Claim C8, amended. For a send of type text by a participant of the room whose session is
  valid: when the trimmed content is empty (and so is the trimmed \<open>msg\<close> fallback), the send
  is a silent no-op, with no message persisted, no broadcast and no error event; and every
  text message that is persisted has the non-empty trimmed text as its content.
\<close>

theorem blank_text_is_noop:
  assumes "md_room md = Some room"
    and "roomColl s room = Some chatRoom"
    and "user_id u \<in> set (participants chatRoom)"
    and "md_type md = ''text''"
  shows "(trimmed (md_content md) = [] \<and> trimmed (md_msg md) = [] \<longrightarrow>
            chatMessage True u now new_id (Some md) s = (s, [])) \<and>
         (\<forall>m. InsertMessage m \<in> set (snd (chatMessage True u now new_id (Some md) s)) \<longrightarrow>
            msg_content m \<noteq> [] \<and>
            msg_content m = (if trimmed (md_content md) \<noteq> [] then trimmed (md_content md)
                             else trimmed (md_msg md)) \<and>
            messageColl (fst (chatMessage True u now new_id (Some md) s)) = messageColl s @ [m])"
proof -
  let ?c = "if trimmed (md_content md) \<noteq> [] then trimmed (md_content md) else trimmed (md_msg md)"
  have t: "trim ?c = ?c" by (simp add: trim_trimmed)
  have chat: "chatMessage True u now new_id (Some md) s =
      (if ?c = [] then (s, [])
       else deliver u room (md_content md)
              (new_message new_id room (Some (user_id u)) TText ?c now) s)"
    using assms by (simp add: chatMessage_def Let_def)
  have sv: "save_message (new_message new_id room (Some (user_id u)) TText ?c now) s =
      (if ?c \<noteq> [] \<and> length ?c \<le> 10000
       then Inr (new_message new_id room (Some (user_id u)) TText ?c now,
                 s\<lparr>messageColl := messageColl s @
                      [new_message new_id room (Some (user_id u)) TText ?c now]\<rparr>)
       else Inl ValidationError)"
    unfolding save_message_def Let_def
    by (simp add: new_message_def valid_message_def t)
  have noop: "trimmed (md_content md) = [] \<and> trimmed (md_msg md) = [] \<longrightarrow>
            chatMessage True u now new_id (Some md) s = (s, [])"
    by (simp add: chat)
  have sent: "\<forall>m. InsertMessage m \<in> set (snd (chatMessage True u now new_id (Some md) s)) \<longrightarrow>
            msg_content m \<noteq> [] \<and> msg_content m = ?c \<and>
            messageColl (fst (chatMessage True u now new_id (Some md) s)) = messageColl s @ [m]"
  proof (cases "?c \<noteq> [] \<and> length ?c \<le> 10000")
    case True
    then show ?thesis
      unfolding chat deliver_def sv
      by (auto simp: Let_def new_message_def)
  next
    case False
    then show ?thesis
      unfolding chat deliver_def sv
      by (auto simp: Let_def)
  qed
  from noop sent show ?thesis by blast
qed

theorem blank_text_is_noop_witness:
  "md_room (text_data (js ''  '')) = Some 1 \<and>
   roomColl one_room 1 = Some \<lparr>participants = [7, 8], hasPassword = False\<rparr> \<and>
   user_id ann \<in> set [7, 8] \<and>
   md_type (text_data (js ''  '')) = ''text'' \<and>
   trimmed (md_content (text_data (js ''  ''))) = [] \<and>
   trimmed (md_msg (text_data (js ''  ''))) = [] \<and>
   chatMessage True ann 1000 50 (Some (text_data (js ''  ''))) one_room = (one_room, []) \<and>
   InsertMessage (new_message 50 1 (Some 7) TText (js ''hi'') 1000)
     \<in> set (snd (chatMessage True ann 1000 50 (Some (text_data (js '' hi ''))) one_room)) \<and>
   msg_content (new_message 50 1 (Some 7) TText (js ''hi'') 1000) \<noteq> [] \<and>
   messageColl (fst (chatMessage True ann 1000 50 (Some (text_data (js '' hi ''))) one_room)) =
     [new_message 50 1 (Some 7) TText (js ''hi'') 1000]"
proof -
  let ?room = "\<lparr>participants = [7, 8], hasPassword = False\<rparr>"
  let ?m = "new_message 50 1 (Some 7) TText (js ''hi'') 1000"
  have r: "roomColl one_room 1 = Some ?room"
    by (simp add: one_room_def init_state_def)
  have p: "user_id ann \<in> set (participants ?room)"
    by (simp add: ann_def)
  have b1: "md_room (text_data (js ''  '')) = Some 1" "md_type (text_data (js ''  '')) = ''text''"
    by (simp_all add: text_data_def)
  have b2: "trimmed (md_content (text_data (js ''  ''))) = []"
      "trimmed (md_msg (text_data (js ''  ''))) = []"
    by (simp_all add: text_data_def trimmed_def trim_def js_def is_space_def)
  have h1: "md_room (text_data (js '' hi '')) = Some 1" "md_type (text_data (js '' hi '')) = ''text''"
    by (simp_all add: text_data_def)
  have ins: "InsertMessage ?m
     \<in> set (snd (chatMessage True ann 1000 50 (Some (text_data (js '' hi ''))) one_room))"
    by (simp add: chat_eval)
  from blank_text_is_noop [OF b1(1) r p b1(2), of 1000 50] b2
  have noop: "chatMessage True ann 1000 50 (Some (text_data (js ''  ''))) one_room = (one_room, [])"
    by blast
  from blank_text_is_noop [OF h1(1) r p h1(2), of 1000 50] ins
  have sent: "msg_content ?m \<noteq> []"
     "messageColl (fst (chatMessage True ann 1000 50 (Some (text_data (js '' hi ''))) one_room)) =
        messageColl one_room @ [?m]"
    by blast+
  have e: "messageColl one_room = []"
    by (simp add: one_room_def init_state_def)
  from r p b1 b2 noop ins sent show ?thesis
    unfolding e by simp
qed


end
